theory Spec2Isabelle
  imports Main
begin

section \<open>JSON values and the Python operations the bridge uses on them\<close>

text \<open>
  The bridge (\<^verbatim>\<open>mcp-client.py\<close>) handles JSON-compatible Python values: the requests
  it builds are dict literals, the configuration is what \<^verbatim>\<open>json.load\<close> returns and a
  response is what \<^verbatim>\<open>json.loads\<close> returns. A dict is kept as the list of its items in
  insertion order. Python floats are left out of the model: the source builds no request
  with one and treats them like any other value. A string is a list of HOL characters,
  each a code point below 256.
\<close>

datatype json =
    JNull
  | JBool bool
  | JInt int
  | JStr string
  | JList "json list"
  | JDict "(string \<times> json) list"

text \<open>
  Python exceptions, all subclasses of \<^verbatim>\<open>Exception\<close>. \<open>Exception msg\<close> is a plain
  \<^verbatim>\<open>Exception(msg)\<close>; \<open>HTTPException code detail\<close> is FastAPI's; \<open>OSError\<close> and
  \<open>ValueError\<close> stand for what the operating system and the stream reader raise.
\<close>

datatype exn =
    Exception string
  | AttributeError
  | TypeError
  | KeyError string
  | ValueError string
  | OSError string
  | JSONDecodeError
  | UnicodeDecodeError
  | HTTPException nat json

text \<open>Truthiness, as \<^verbatim>\<open>bool(x)\<close>, \<^verbatim>\<open>if not x\<close> and \<^verbatim>\<open>x or y\<close> read it.\<close>

fun py_bool :: "json \<Rightarrow> bool" where
  "py_bool JNull = False"
| "py_bool (JBool b) = b"
| "py_bool (JInt i) = (i \<noteq> 0)"
| "py_bool (JStr s) = (s \<noteq> [])"
| "py_bool (JList xs) = (xs \<noteq> [])"
| "py_bool (JDict kvs) = (kvs \<noteq> [])"

text \<open>\<^verbatim>\<open>d.get(key, default)\<close>: only a dict has the method.\<close>

fun py_get :: "json \<Rightarrow> string \<Rightarrow> json \<Rightarrow> exn + json" where
  "py_get (JDict kvs) k d = (case map_of kvs k of None \<Rightarrow> Inr d | Some v \<Rightarrow> Inr v)"
| "py_get _ k d = Inl AttributeError"

text \<open>\<^verbatim>\<open>s in t\<close> for strings: \<open>s\<close> occurs in \<open>t\<close> as a contiguous part.\<close>

fun substring :: "string \<Rightarrow> string \<Rightarrow> bool" where
  "substring s [] = (s = [])"
| "substring s (c # cs) = (take (length s) (c # cs) = s \<or> substring s cs)"

text \<open>
  \<^verbatim>\<open>key in x\<close> for a string \<open>key\<close>: a key of a dict, an element of a list, a part of
  a string; \<^verbatim>\<open>None\<close>, a bool and an int are not iterable.
\<close>

fun py_contains :: "string \<Rightarrow> json \<Rightarrow> exn + bool" where
  "py_contains k (JDict kvs) = Inr (k \<in> set (map fst kvs))"
| "py_contains k (JList xs) = Inr (JStr k \<in> set xs)"
| "py_contains k (JStr s) = Inr (substring k s)"
| "py_contains k _ = Inl TypeError"

text \<open>\<^verbatim>\<open>x[key]\<close> for a string \<open>key\<close>.\<close>

fun py_getitem :: "json \<Rightarrow> string \<Rightarrow> exn + json" where
  "py_getitem (JDict kvs) k = (case map_of kvs k of None \<Rightarrow> Inl (KeyError k) | Some v \<Rightarrow> Inr v)"
| "py_getitem _ k = Inl TypeError"

subsection \<open>json.dumps with its default arguments\<close>

text \<open>
  \<^verbatim>\<open>json.dumps(x)\<close> as the standard library defines it for the default arguments:
  item separator \<^verbatim>\<open>", "\<close>, key separator \<^verbatim>\<open>": "\<close>, no indentation, and
  \<^verbatim>\<open>ensure_ascii=True\<close>, under which every character of a string outside
  \<^verbatim>\<open>' '..'~'\<close>, the double quote and the backslash are written as escapes.
\<close>

definition hexdigit :: "nat \<Rightarrow> char" where
  "hexdigit n = (''0123456789abcdef'' ! (n mod 16))"

definition escape_char :: "char \<Rightarrow> string" where
  "escape_char c =
     (if c = CHR 0x22 then [CHR 0x5C, CHR 0x22]
      else if c = CHR 0x5C then [CHR 0x5C, CHR 0x5C]
      else if c = CHR 0x0A then [CHR 0x5C, CHR ''n'']
      else if c = CHR 0x0D then [CHR 0x5C, CHR ''r'']
      else if c = CHR 0x09 then [CHR 0x5C, CHR ''t'']
      else if c = CHR 0x08 then [CHR 0x5C, CHR ''b'']
      else if c = CHR 0x0C then [CHR 0x5C, CHR ''f'']
      else if of_char c < (0x20 :: nat) \<or> (0x7E :: nat) < of_char c
        then [CHR 0x5C, CHR ''u'', CHR ''0'', CHR ''0'',
              hexdigit (of_char c div 16), hexdigit (of_char c mod 16)]
      else [c])"

definition encode_basestring_ascii :: "string \<Rightarrow> string" where
  "encode_basestring_ascii s = [CHR 0x22] @ concat (map escape_char s) @ [CHR 0x22]"

fun digits :: "nat \<Rightarrow> string" where
  "digits n = (if n < 10 then [hexdigit n] else digits (n div 10) @ [hexdigit (n mod 10)])"

declare digits.simps [simp del]

definition int_repr :: "int \<Rightarrow> string" where
  "int_repr i = (if i < 0 then CHR ''-'' # digits (nat (- i)) else digits (nat i))"

fun join :: "string \<Rightarrow> string list \<Rightarrow> string" where
  "join sep [] = []"
| "join sep [x] = x"
| "join sep (x # y # ys) = x @ sep @ join sep (y # ys)"

definition dump_item :: "string \<times> string \<Rightarrow> string" where
  "dump_item kv = encode_basestring_ascii (fst kv) @ '': '' @ snd kv"

primrec json_dumps :: "json \<Rightarrow> string" where
  "json_dumps JNull = ''null''"
| "json_dumps (JBool b) = (if b then ''true'' else ''false'')"
| "json_dumps (JInt i) = int_repr i"
| "json_dumps (JStr s) = encode_basestring_ascii s"
| "json_dumps (JList xs) = ''['' @ join '', '' (map json_dumps xs) @ '']''"
| "json_dumps (JDict kvs) =
     ''{'' @ join '', '' (map dump_item (map (map_prod id json_dumps) kvs)) @ ''}''"

section \<open>The child process and the session\<close>

text \<open>
  \<^verbatim>\<open>self.process\<close> is the handle \<^verbatim>\<open>asyncio.create_subprocess_exec\<close> returns. The model
  keeps the command line it was started with and, in order, the data written to its
  standard input.
\<close>

record process =
  argv :: "json list"
  stdin_written :: "string list"

text \<open>\<^verbatim>\<open>class MCPClient\<close>: \<^verbatim>\<open>__init__\<close> sets no process and \<^verbatim>\<open>connected = False\<close>.\<close>

record MCPClient =
  process :: "process option"
  connected :: bool

definition MCPClient_init :: MCPClient where
  "MCPClient_init = \<lparr>process = None, connected = False\<rparr>"

text \<open>
  What the child and the operating system do during one \<^verbatim>\<open>send_request\<close> is not the
  program's choice, so it is an argument of the model. \<open>write_error\<close> is the exception
  \<^verbatim>\<open>stdin.write\<close> or \<^verbatim>\<open>stdin.drain\<close> raises, if any. \<open>read_result\<close> is what becomes of
  \<^verbatim>\<open>stdout.readline()\<close> and of decoding its line:
  \<^item> \<open>ReadFailed e\<close>: \<^verbatim>\<open>readline\<close> raises \<open>e\<close>;
  \<^item> \<open>EndOfStream\<close>: the stream is at its end and \<^verbatim>\<open>readline\<close> returns \<^verbatim>\<open>b''\<close>, on which
    \<^verbatim>\<open>json.loads\<close> raises;
  \<^item> \<open>Malformed e\<close>: the line is one that \<^verbatim>\<open>.decode()\<close> or \<^verbatim>\<open>json.loads\<close> rejects with \<open>e\<close>;
  \<^item> \<open>Line v\<close>: the line, decoded and stripped, is JSON text that \<^verbatim>\<open>json.loads\<close> parses
    to \<open>v\<close>.
  A child that neither answers nor exits keeps \<^verbatim>\<open>readline\<close> waiting; the model covers the
  calls whose read comes back. Each call runs from its start to its end on its own: the
  interleaving of coroutines at the \<^verbatim>\<open>await\<close> points is not part of the model.
\<close>

datatype read_result =
    ReadFailed exn
  | EndOfStream
  | Malformed exn
  | Line json

record io =
  write_error :: "exn option"
  read_result :: read_result

text \<open>\<^verbatim>\<open>MCPClient.send_request\<close> (the \<^verbatim>\<open>except\<close> clause logs and re-raises).\<close>

definition send_request :: "io \<Rightarrow> MCPClient \<Rightarrow> json \<Rightarrow> (exn + json) \<times> MCPClient" where
  "send_request env self request =
     (case process self of
        None \<Rightarrow> (Inl (Exception ''MCP server not connected''), self)
      | Some p \<Rightarrow>
          (case write_error env of
             Some e \<Rightarrow> (Inl e, self)
           | None \<Rightarrow>
               (let request_json = json_dumps request @ [CHR 0x0A];
                    self' = self\<lparr>process :=
                      Some (p\<lparr>stdin_written := stdin_written p @ [request_json]\<rparr>)\<rparr>
                in case read_result env of
                     ReadFailed e \<Rightarrow> (Inl e, self')
                   | EndOfStream \<Rightarrow> (Inl JSONDecodeError, self')
                   | Malformed e \<Rightarrow> (Inl e, self')
                   | Line response \<Rightarrow> (Inr response, self'))))"

subsection \<open>connect\<close>

text \<open>The dict literal \<^verbatim>\<open>init_request\<close> of \<^verbatim>\<open>MCPClient.connect\<close>.\<close>

definition init_request :: json where
  "init_request = JDict
     [(''jsonrpc'', JStr ''2.0''),
      (''id'', JInt 1),
      (''method'', JStr ''initialize''),
      (''params'', JDict
         [(''protocolVersion'', JStr ''2024-11-05''),
          (''capabilities'', JDict
             [(''roots'', JDict [(''listChanged'', JBool True)]),
              (''sampling'', JDict [])]),
          (''clientInfo'', JDict
             [(''name'', JStr ''fastapi-mcp-bridge''),
              (''version'', JStr ''1.0.0'')])])]"

text \<open>
  The first part of \<^verbatim>\<open>connect\<close>: the command line of the first server of the
  configuration. \<^verbatim>\<open>list(server_config.keys())[0]\<close> needs a dict, which is not empty
  here because it is truthy; \<^verbatim>\<open>[command] + args\<close> needs \<open>args\<close> to be a list.
\<close>

definition full_command :: "json \<Rightarrow> exn + json list" where
  "full_command config =
     (case py_get config ''mcpServers'' (JDict []) of
        Inl e \<Rightarrow> Inl e
      | Inr server_config \<Rightarrow>
          if \<not> py_bool server_config
          then Inl (Exception ''No MCP server configuration found'')
          else
            (case server_config of
               JDict ((server_name, server_info) # rest) \<Rightarrow>
                 (case py_get server_info ''command'' JNull of
                    Inl e \<Rightarrow> Inl e
                  | Inr command \<Rightarrow>
                      (case py_get server_info ''args'' (JList []) of
                         Inl e \<Rightarrow> Inl e
                       | Inr args \<Rightarrow>
                           if \<not> py_bool command
                           then Inl (Exception ''No command specified in MCP config'')
                           else (case args of
                                   JList xs \<Rightarrow> Inr (command # xs)
                                 | _ \<Rightarrow> Inl TypeError)))
             | _ \<Rightarrow> Inl AttributeError))"

text \<open>
  \<^verbatim>\<open>MCPClient.connect\<close>. \<open>spawn_error\<close> is the exception
  \<^verbatim>\<open>asyncio.create_subprocess_exec\<close> raises, if any; \<open>handshake\<close> is what happens during
  the \<^verbatim>\<open>send_request\<close> of the initialize request. The \<^verbatim>\<open>except\<close> clause logs and
  re-raises, so an exception leaves \<^verbatim>\<open>connected\<close> as it was.
\<close>

record connect_env =
  spawn_error :: "exn option"
  handshake :: io

definition connect :: "connect_env \<Rightarrow> json \<Rightarrow> MCPClient \<Rightarrow> (exn + unit) \<times> MCPClient" where
  "connect env config self =
     (case full_command config of
        Inl e \<Rightarrow> (Inl e, self)
      | Inr cmd \<Rightarrow>
          (case spawn_error env of
             Some e \<Rightarrow> (Inl e, self)
           | None \<Rightarrow>
               (let self1 = self\<lparr>process := Some \<lparr>argv = cmd, stdin_written = []\<rparr>\<rparr>
                in case send_request (handshake env) self1 init_request of
                     (Inl e, self2) \<Rightarrow> (Inl e, self2)
                   | (Inr response, self2) \<Rightarrow> (Inr (), self2\<lparr>connected := True\<rparr>))))"

section \<open>The HTTP endpoints\<close>

text \<open>
  The pydantic models. \<^verbatim>\<open>MCPResponse.error\<close> holds \<^verbatim>\<open>str(e)\<close> of an exception \<open>e\<close>; the
  text of an exception is the library's, so the model keeps \<open>e\<close> itself in the field.
  \<^verbatim>\<open>None\<close> in \<^verbatim>\<open>result\<close> is \<open>JNull\<close>. The field \<^verbatim>\<open>MCPRequest.method\<close> is
  \<open>rpc_method\<close> here, the source's name being a keyword of Isabelle.
\<close>

record MCPRequest =
  rpc_method :: string
  params :: "(string \<times> json) list option"

record MCPResponse =
  success :: bool
  result :: json
  error :: "exn option"

record ToolCall =
  tool_name :: string
  parameters :: "(string \<times> json) list"

text \<open>The request dicts the three endpoints build.\<close>

definition list_tools_request :: json where
  "list_tools_request = JDict
     [(''jsonrpc'', JStr ''2.0''), (''id'', JInt 2), (''method'', JStr ''tools/list'')]"

definition call_tool_request :: "ToolCall \<Rightarrow> json" where
  "call_tool_request tool_call = JDict
     [(''jsonrpc'', JStr ''2.0''),
      (''id'', JInt 3),
      (''method'', JStr ''tools/call''),
      (''params'', JDict
         [(''name'', JStr (tool_name tool_call)),
          (''arguments'', JDict (parameters tool_call))])]"

definition send_mcp_request_request :: "MCPRequest \<Rightarrow> json" where
  "send_mcp_request_request mcp_request = JDict
     [(''jsonrpc'', JStr ''2.0''),
      (''id'', JInt 4),
      (''method'', JStr (rpc_method mcp_request)),
      (''params'',
         (case params mcp_request of
            None \<Rightarrow> JDict []
          | Some kvs \<Rightarrow> if py_bool (JDict kvs) then JDict kvs else JDict []))]"

text \<open>
  What each endpoint does with the response inside its \<^verbatim>\<open>try\<close>:
  \<^verbatim>\<open>
  if "error" in response:
      raise HTTPException(status_code=500, detail=response["error"])
  return MCPResponse(success=True, result=response.get("result", {}))
  \<close>
\<close>

definition on_response :: "json \<Rightarrow> exn + MCPResponse" where
  "on_response response =
     (case py_contains ''error'' response of
        Inl e \<Rightarrow> Inl e
      | Inr True \<Rightarrow>
          (case py_getitem response ''error'' of
             Inl e \<Rightarrow> Inl e
           | Inr detail \<Rightarrow> Inl (HTTPException 500 detail))
      | Inr False \<Rightarrow>
          (case py_get response ''result'' (JDict []) of
             Inl e \<Rightarrow> Inl e
           | Inr r \<Rightarrow> Inr \<lparr>success = True, result = r, error = None\<rparr>))"

text \<open>
  An endpoint: the \<^verbatim>\<open>try\<close> body sends the request and looks at the response; the
  \<^verbatim>\<open>except Exception as e\<close> clause turns every exception of the body, the
  \<open>HTTPException\<close> included, into a returned \<^verbatim>\<open>MCPResponse(success=False, error=str(e))\<close>.
  The outcome of an endpoint is \<open>Inr\<close> of the value it returns or \<open>Inl\<close> of the
  exception it raises.
\<close>

definition endpoint :: "io \<Rightarrow> MCPClient \<Rightarrow> json \<Rightarrow> (exn + MCPResponse) \<times> MCPClient" where
  "endpoint env mcp_client request =
     (case send_request env mcp_client request of
        (Inl e, c) \<Rightarrow> (Inr \<lparr>success = False, result = JNull, error = Some e\<rparr>, c)
      | (Inr response, c) \<Rightarrow>
          (case on_response response of
             Inl e \<Rightarrow> (Inr \<lparr>success = False, result = JNull, error = Some e\<rparr>, c)
           | Inr r \<Rightarrow> (Inr r, c)))"

definition list_tools :: "io \<Rightarrow> MCPClient \<Rightarrow> (exn + MCPResponse) \<times> MCPClient" where
  "list_tools env mcp_client = endpoint env mcp_client list_tools_request"

definition call_tool :: "io \<Rightarrow> MCPClient \<Rightarrow> ToolCall \<Rightarrow> (exn + MCPResponse) \<times> MCPClient" where
  "call_tool env mcp_client tool_call = endpoint env mcp_client (call_tool_request tool_call)"

definition send_mcp_request ::
    "io \<Rightarrow> MCPClient \<Rightarrow> MCPRequest \<Rightarrow> (exn + MCPResponse) \<times> MCPClient" where
  "send_mcp_request env mcp_client mcp_request =
     endpoint env mcp_client (send_mcp_request_request mcp_request)"

text \<open>
  The status FastAPI answers with: 200 for a value the endpoint returns, the exception's
  own code for an \<open>HTTPException\<close> it raises, 500 for any other exception.
\<close>

fun http_status :: "exn + MCPResponse \<Rightarrow> nat" where
  "http_status (Inr r) = 200"
| "http_status (Inl (HTTPException code detail)) = code"
| "http_status (Inl e) = 500"

text \<open>\<^verbatim>\<open>health_check\<close>: the dict it returns, and the fields the endpoint reads.\<close>

record health =
  status :: string
  mcp_connected :: bool
  config_loaded :: bool

definition health_check :: "MCPClient \<Rightarrow> json \<Rightarrow> health" where
  "health_check mcp_client config =
     \<lparr>status = ''healthy'',
      mcp_connected = connected mcp_client,
      config_loaded = py_bool config\<rparr>"

section \<open>Example sessions\<close>

text \<open>A configuration with one server, and a child that answers the handshake.\<close>

definition example_config :: json where
  "example_config = JDict
     [(''mcpServers'', JDict
        [(''demo'', JDict [(''command'', JStr ''echo-server''), (''args'', JList [])])])]"

definition reply :: "json \<Rightarrow> io" where
  "reply v = \<lparr>write_error = None, read_result = Line v\<rparr>"

definition tools_reply :: "int \<Rightarrow> json" where
  "tools_reply i = JDict
     [(''jsonrpc'', JStr ''2.0''), (''id'', JInt i), (''result'', JDict [(''tools'', JList [])])]"

definition error_reply :: json where
  "error_reply = JDict
     [(''jsonrpc'', JStr ''2.0''),
      (''id'', JInt 1),
      (''error'', JDict [(''code'', JInt (- 32600)), (''message'', JStr ''Invalid Request'')])]"

definition garbled :: io where
  "garbled = \<lparr>write_error = None, read_result = Malformed JSONDecodeError\<rparr>"

definition example_connect_env :: connect_env where
  "example_connect_env =
     \<lparr>spawn_error = None,
      handshake = reply (JDict [(''jsonrpc'', JStr ''2.0''), (''id'', JInt 1),
                                (''result'', JDict [])])\<rparr>"

definition example_ready :: MCPClient where
  "example_ready = snd (connect example_connect_env example_config MCPClient_init)"


definition example_tool_call :: ToolCall where
  "example_tool_call = \<lparr>tool_name = ''echo'', parameters = [(''text'', JStr ''hi'')]\<rparr>"

definition example_mcp_request :: MCPRequest where
  "example_mcp_request = \<lparr>rpc_method = ''ping'', params = None\<rparr>"

section \<open>Properties\<close>

subsection \<open>Auxiliary facts\<close>

lemma join_set: "set (join sep xs) \<subseteq> set sep \<union> \<Union> (set ` set xs)"
  by (induction sep xs rule: join.induct) auto

lemma hexdigit_mem: "hexdigit n \<in> set ''0123456789abcdef''"
  unfolding hexdigit_def by (rule nth_mem) simp

lemma hexdigit_not_newline: "hexdigit n \<noteq> CHR 0x0A"
  using hexdigit_mem[of n] by auto

lemma escape_char_no_newline: "CHR 0x0A \<notin> set (escape_char c)"
  using hexdigit_not_newline[of "of_char c div 16"] hexdigit_not_newline[of "of_char c mod 16"]
  by (simp add: escape_char_def)

lemma digits_no_newline: "CHR 0x0A \<notin> set (digits n)"
proof (induction n rule: digits.induct)
  case (1 n)
  show ?case
  proof (cases "n < 10")
    case True
    then show ?thesis using hexdigit_not_newline[of n] by (subst digits.simps) simp
  next
    case False
    then show ?thesis using 1 hexdigit_not_newline[of "n mod 10"] by (subst digits.simps) simp
  qed
qed

lemma encode_basestring_ascii_no_newline: "CHR 0x0A \<notin> set (encode_basestring_ascii s)"
  by (auto simp: encode_basestring_ascii_def escape_char_no_newline)

text \<open>\<^verbatim>\<open>json.dumps\<close> with its default arguments writes no newline, whatever the value.\<close>

lemma json_dumps_no_newline: "CHR 0x0A \<notin> set (json_dumps j)"
proof (induction j)
  case (JList xs)
  then show ?case using join_set[of "'', ''" "map json_dumps xs"] by auto
next
  case (JDict kvs)
  then show ?case
    using join_set[of "'', ''" "map dump_item (map (map_prod id json_dumps) kvs)"]
    by (fastforce simp: dump_item_def encode_basestring_ascii_no_newline)
qed (auto simp: int_repr_def digits_no_newline encode_basestring_ascii_no_newline)

text \<open>The text of the two fixed requests on the wire.\<close>

lemma init_request_text:
  \<open>json_dumps init_request =
    ''{"jsonrpc": "2.0", "id": 1, "method": "initialize", "params": {"protocolVersion": "2024-11-05", "capabilities": {"roots": {"listChanged": true}, "sampling": {}}, "clientInfo": {"name": "fastapi-mcp-bridge", "version": "1.0.0"}}}''\<close>
  by (simp add: init_request_def encode_basestring_ascii_def escape_char_def dump_item_def
      int_repr_def hexdigit_def digits.simps)

lemma list_tools_request_text:
  \<open>json_dumps list_tools_request = ''{"jsonrpc": "2.0", "id": 2, "method": "tools/list"}''\<close>
  by (simp add: list_tools_request_def encode_basestring_ascii_def escape_char_def dump_item_def
      int_repr_def hexdigit_def digits.simps)

text \<open>The session after a successful \<^verbatim>\<open>connect\<close> on a fresh client.\<close>

lemma example_ready_eq:
  "example_ready =
     \<lparr>process = Some \<lparr>argv = [JStr ''echo-server''],
                        stdin_written = [json_dumps init_request @ [CHR 0x0A]]\<rparr>,
      connected = True\<rparr>"
  by (simp add: example_ready_def example_connect_env_def example_config_def reply_def
      MCPClient_init_def connect_def full_command_def send_request_def)

text \<open>A call with a process whose write succeeds appends one line: the request and a newline.\<close>

lemma send_request_writes:
  "process self = Some p \<Longrightarrow> write_error env = None \<Longrightarrow>
   process (snd (send_request env self request)) =
     Some (p\<lparr>stdin_written := stdin_written p @ [json_dumps request @ [CHR 0x0A]]\<rparr>)"
  by (cases "read_result env") (simp_all add: send_request_def)

lemma endpoint_state: "snd (endpoint env self request) = snd (send_request env self request)"
  by (simp add: endpoint_def split: prod.splits sum.splits)

subsection \<open>Request ids\<close>

text \<open>
  C1 (as amended). Every request carries the constant id of the operation that sends it: 1
  for the initialize request of \<^verbatim>\<open>connect\<close>, 2 for \<^verbatim>\<open>list_tools\<close>, 3 for \<^verbatim>\<open>call_tool\<close>,
  4 for \<^verbatim>\<open>send_mcp_request\<close>, whatever the tool call or the raw request is. An endpoint
  whose write succeeds appends to the child's input exactly the line of that request. So
  a request sent after the handshake has an id greater than the handshake's, and the id
  says which operation sent it, not which call.
\<close>

theorem request_id_fixed_per_operation:
  "process self = Some p \<Longrightarrow> write_error env = None \<Longrightarrow>
   py_get init_request ''id'' JNull = Inr (JInt 1) \<and>
   py_get list_tools_request ''id'' JNull = Inr (JInt 2) \<and>
   py_get (call_tool_request tool_call) ''id'' JNull = Inr (JInt 3) \<and>
   py_get (send_mcp_request_request mcp_request) ''id'' JNull = Inr (JInt 4) \<and>
   process (snd (list_tools env self)) =
     Some (p\<lparr>stdin_written :=
       stdin_written p @ [json_dumps list_tools_request @ [CHR 0x0A]]\<rparr>) \<and>
   process (snd (call_tool env self tool_call)) =
     Some (p\<lparr>stdin_written :=
       stdin_written p @ [json_dumps (call_tool_request tool_call) @ [CHR 0x0A]]\<rparr>) \<and>
   process (snd (send_mcp_request env self mcp_request)) =
     Some (p\<lparr>stdin_written :=
       stdin_written p @ [json_dumps (send_mcp_request_request mcp_request) @ [CHR 0x0A]]\<rparr>)"
  by (simp add: list_tools_def call_tool_def send_mcp_request_def endpoint_state
      send_request_writes init_request_def list_tools_request_def call_tool_request_def
      send_mcp_request_request_def)

text \<open>The same on the example session, for one call of each endpoint.\<close>

theorem request_id_fixed_per_operation_witness:
  "process example_ready =
     Some \<lparr>argv = [JStr ''echo-server''],
           stdin_written = [json_dumps init_request @ [CHR 0x0A]]\<rparr> \<and>
   write_error (reply (tools_reply 2)) = None \<and>
   py_get init_request ''id'' JNull = Inr (JInt 1) \<and>
   py_get list_tools_request ''id'' JNull = Inr (JInt 2) \<and>
   py_get (call_tool_request example_tool_call) ''id'' JNull = Inr (JInt 3) \<and>
   py_get (send_mcp_request_request example_mcp_request) ''id'' JNull = Inr (JInt 4) \<and>
   process (snd (list_tools (reply (tools_reply 2)) example_ready)) =
     Some \<lparr>argv = [JStr ''echo-server''],
           stdin_written = [json_dumps init_request @ [CHR 0x0A],
                            json_dumps list_tools_request @ [CHR 0x0A]]\<rparr> \<and>
   process (snd (call_tool (reply (tools_reply 2)) example_ready example_tool_call)) =
     Some \<lparr>argv = [JStr ''echo-server''],
           stdin_written = [json_dumps init_request @ [CHR 0x0A],
                            json_dumps (call_tool_request example_tool_call) @ [CHR 0x0A]]\<rparr> \<and>
   process (snd (send_mcp_request (reply (tools_reply 2)) example_ready example_mcp_request)) =
     Some \<lparr>argv = [JStr ''echo-server''],
           stdin_written = [json_dumps init_request @ [CHR 0x0A],
             json_dumps (send_mcp_request_request example_mcp_request) @ [CHR 0x0A]]\<rparr>"
proof -
  have p: "process example_ready =
     Some \<lparr>argv = [JStr ''echo-server''],
           stdin_written = [json_dumps init_request @ [CHR 0x0A]]\<rparr>"
    by (simp add: example_ready_eq)
  have w: "write_error (reply (tools_reply 2)) = None"
    by (simp add: reply_def)
  show ?thesis
    using p w request_id_fixed_per_operation [OF p w, of example_tool_call example_mcp_request]
    by simp
qed

text \<open>
  C1 (as stated) fails: two calls of \<^verbatim>\<open>list_tools\<close> on the connected example session
  write the same line twice, and that line carries the id 2. The ids on the wire are then
  1, 2, 2: not unique, and the third is not greater than the second.
\<close>

theorem request_id_repeats_counterexample:
  \<open>process (snd (list_tools (reply (tools_reply 2))
      (snd (list_tools (reply (tools_reply 2)) example_ready)))) =
     Some \<lparr>argv = [JStr ''echo-server''],
           stdin_written = [json_dumps init_request @ [CHR 0x0A],
                            json_dumps list_tools_request @ [CHR 0x0A],
                            json_dumps list_tools_request @ [CHR 0x0A]]\<rparr> \<and>
   py_get list_tools_request ''id'' JNull = Inr (JInt 2) \<and>
   json_dumps list_tools_request = ''{"jsonrpc": "2.0", "id": 2, "method": "tools/list"}''\<close>
proof -
  let ?env = "reply (tools_reply 2)"
  have w: "write_error ?env = None"
    by (simp add: reply_def)
  have 1: "process (snd (list_tools ?env example_ready)) =
      Some \<lparr>argv = [JStr ''echo-server''],
            stdin_written = [json_dumps init_request @ [CHR 0x0A],
                             json_dumps list_tools_request @ [CHR 0x0A]]\<rparr>"
    by (simp add: list_tools_def endpoint_state send_request_writes [OF _ w] example_ready_eq)
  have 2: "process (snd (list_tools ?env (snd (list_tools ?env example_ready)))) =
      Some \<lparr>argv = [JStr ''echo-server''],
            stdin_written = [json_dumps init_request @ [CHR 0x0A],
                             json_dumps list_tools_request @ [CHR 0x0A],
                             json_dumps list_tools_request @ [CHR 0x0A]]\<rparr>"
    using send_request_writes [OF 1 [unfolded list_tools_def] w, of list_tools_request]
    by (simp add: list_tools_def endpoint_state)
  show ?thesis
    using 2 list_tools_request_text by (simp add: list_tools_request_def)
qed


subsection \<open>Responses and their ids\<close>

text \<open>
  C2 (as amended). \<^verbatim>\<open>send_request\<close> never looks at the id of a response: when the write
  succeeds and the line read decodes to a JSON value, that value is returned to the
  caller whatever id it carries, no error is raised on account of the id, and the session
  keeps its process and its \<open>connected\<close> flag.
\<close>

theorem response_returned_whatever_its_id:
  "process self = Some p \<Longrightarrow> write_error env = None \<Longrightarrow> read_result env = Line response \<Longrightarrow>
   fst (send_request env self request) = Inr response \<and>
   connected (snd (send_request env self request)) = connected self \<and>
   process (snd (send_request env self request)) \<noteq> None \<and>
   connected (snd (endpoint env self request)) = connected self"
  by (simp add: send_request_def endpoint_state)

theorem response_returned_whatever_its_id_witness:
  "process example_ready =
     Some \<lparr>argv = [JStr ''echo-server''],
           stdin_written = [json_dumps init_request @ [CHR 0x0A]]\<rparr> \<and>
   write_error (reply (tools_reply 99)) = None \<and>
   read_result (reply (tools_reply 99)) = Line (tools_reply 99) \<and>
   fst (send_request (reply (tools_reply 99)) example_ready list_tools_request) =
     Inr (tools_reply 99) \<and>
   connected (snd (send_request (reply (tools_reply 99)) example_ready list_tools_request)) \<and>
   process (snd (send_request (reply (tools_reply 99)) example_ready list_tools_request))
     \<noteq> None \<and>
   connected (snd (endpoint (reply (tools_reply 99)) example_ready list_tools_request))"
proof -
  have p: "process example_ready =
     Some \<lparr>argv = [JStr ''echo-server''],
           stdin_written = [json_dumps init_request @ [CHR 0x0A]]\<rparr>"
    by (simp add: example_ready_eq)
  have w: "write_error (reply (tools_reply 99)) = None"
    by (simp add: reply_def)
  have r: "read_result (reply (tools_reply 99)) = Line (tools_reply 99)"
    by (simp add: reply_def)
  have c: "connected example_ready"
    by (simp add: example_ready_eq)
  show ?thesis
    using p w r c response_returned_whatever_its_id [OF p w r, of list_tools_request]
    by simp
qed

text \<open>
  C2 (as stated) fails: \<^verbatim>\<open>list_tools\<close> sends the id 2; when the child answers with the id
  99, the endpoint returns the result of that answer with \<open>success = True\<close>, and the
  session is still connected.
\<close>

theorem mismatched_id_accepted_counterexample:
  "py_get list_tools_request ''id'' JNull = Inr (JInt 2) \<and>
   py_get (tools_reply 99) ''id'' JNull = Inr (JInt 99) \<and>
   fst (list_tools (reply (tools_reply 99)) example_ready) =
     Inr \<lparr>success = True, result = JDict [(''tools'', JList [])], error = None\<rparr> \<and>
   connected (snd (list_tools (reply (tools_reply 99)) example_ready))"
  by (simp add: example_ready_eq list_tools_def endpoint_def send_request_def reply_def
      tools_reply_def on_response_def list_tools_request_def)

subsection \<open>The handshake\<close>

text \<open>
  C3 (as amended). \<^verbatim>\<open>connect\<close> returns normally exactly when the configuration gives a
  command line, the child is spawned, the initialize request is written and the line read
  back decodes to a JSON value, whatever its id and whether or not it has an \<open>error\<close>
  field. After \<^verbatim>\<open>connect\<close> the session is connected exactly when \<^verbatim>\<open>connect\<close> returned
  normally or the session was connected before: when the initialize exchange fails at the
  transport or reads a malformed line, \<^verbatim>\<open>connect\<close> raises and leaves the flag as it was,
  which is \<open>False\<close> for a session that was never connected.
\<close>

theorem connect_succeeds_iff_response_decodes:
  "(fst (connect env config self) = Inr ()) =
     ((\<exists>cmd. full_command config = Inr cmd) \<and> spawn_error env = None \<and>
      write_error (handshake env) = None \<and> (\<exists>v. read_result (handshake env) = Line v)) \<and>
   connected (snd (connect env config self)) =
     (fst (connect env config self) = Inr () \<or> connected self)"
  by (cases "full_command config"; cases "spawn_error env";
      cases "write_error (handshake env)"; cases "read_result (handshake env)")
    (simp_all add: connect_def send_request_def Let_def)

text \<open>On a fresh client, a malformed answer to the handshake: \<^verbatim>\<open>connect\<close> raises, not connected.\<close>

theorem connect_succeeds_iff_response_decodes_witness:
  "fst (connect \<lparr>spawn_error = None, handshake = garbled\<rparr> example_config MCPClient_init)
     \<noteq> Inr () \<and>
   \<not> connected
     (snd (connect \<lparr>spawn_error = None, handshake = garbled\<rparr> example_config MCPClient_init))"
  using connect_succeeds_iff_response_decodes
    [of "\<lparr>spawn_error = None, handshake = garbled\<rparr>" example_config MCPClient_init]
  by (simp add: garbled_def MCPClient_init_def)

text \<open>
  C3 (as stated) fails: when the child answers the initialize request with an error
  response, \<^verbatim>\<open>connect\<close> on a fresh client returns normally and the session is connected.
\<close>

theorem connect_accepts_error_response_counterexample:
  "py_contains ''error'' error_reply = Inr True \<and>
   fst (connect \<lparr>spawn_error = None, handshake = reply error_reply\<rparr>
          example_config MCPClient_init) = Inr () \<and>
   connected (snd (connect \<lparr>spawn_error = None, handshake = reply error_reply\<rparr>
          example_config MCPClient_init))"
  by (simp add: example_config_def reply_def error_reply_def
      MCPClient_init_def connect_def full_command_def send_request_def)

subsection \<open>Transport failures\<close>

text \<open>
  C4 (as amended). When a call on a session with a process fails at the transport (the
  write fails, the read fails, the stream is at its end, or the line is malformed),
  \<^verbatim>\<open>send_request\<close> raises that failure to its caller and an endpoint returns it as
  \<open>success = False\<close> with the error; the \<open>connected\<close> flag is left as it was, so a session
  that was connected is still reported as connected.
\<close>

theorem transport_failure_raised_flag_unchanged:
  "process self = Some p \<Longrightarrow>
   write_error env = Some e \<or>
   write_error env = None \<and>
     (read_result env = ReadFailed e \<or>
      read_result env = EndOfStream \<and> e = JSONDecodeError \<or>
      read_result env = Malformed e) \<Longrightarrow>
   fst (send_request env self request) = Inl e \<and>
   connected (snd (send_request env self request)) = connected self \<and>
   fst (endpoint env self request) =
     Inr \<lparr>success = False, result = JNull, error = Some e\<rparr> \<and>
   connected (snd (endpoint env self request)) = connected self"
  by (auto simp: send_request_def endpoint_def)

theorem transport_failure_raised_flag_unchanged_witness:
  "process example_ready =
     Some \<lparr>argv = [JStr ''echo-server''],
           stdin_written = [json_dumps init_request @ [CHR 0x0A]]\<rparr> \<and>
   write_error garbled = None \<and> read_result garbled = Malformed JSONDecodeError \<and>
   fst (send_request garbled example_ready list_tools_request) = Inl JSONDecodeError \<and>
   connected (snd (send_request garbled example_ready list_tools_request)) \<and>
   fst (endpoint garbled example_ready list_tools_request) =
     Inr \<lparr>success = False, result = JNull, error = Some JSONDecodeError\<rparr> \<and>
   connected (snd (endpoint garbled example_ready list_tools_request))"
proof -
  have p: "process example_ready =
     Some \<lparr>argv = [JStr ''echo-server''],
           stdin_written = [json_dumps init_request @ [CHR 0x0A]]\<rparr>"
    by (simp add: example_ready_eq)
  have f: "write_error garbled = Some JSONDecodeError \<or>
     write_error garbled = None \<and>
       (read_result garbled = ReadFailed JSONDecodeError \<or>
        read_result garbled = EndOfStream \<and> JSONDecodeError = JSONDecodeError \<or>
        read_result garbled = Malformed JSONDecodeError)"
    by (simp add: garbled_def)
  have c: "connected example_ready"
    by (simp add: example_ready_eq)
  show ?thesis
    using p c transport_failure_raised_flag_unchanged [OF p f, of list_tools_request]
    by (simp add: garbled_def)
qed

text \<open>
  C4 (as stated) fails: a malformed line during \<^verbatim>\<open>list_tools\<close> on the connected example
  session is raised by \<^verbatim>\<open>send_request\<close>, and the session is still reported as connected
  afterwards.
\<close>

theorem still_connected_after_failure_counterexample:
  "connected example_ready \<and>
   fst (send_request garbled example_ready list_tools_request) = Inl JSONDecodeError \<and>
   connected (snd (send_request garbled example_ready list_tools_request)) \<and>
   connected (snd (list_tools garbled example_ready)) \<and>
   mcp_connected (health_check (snd (list_tools garbled example_ready)) example_config)"
  by (simp add: example_ready_eq list_tools_def endpoint_def send_request_def garbled_def
      health_check_def)

subsection \<open>Errors at the endpoints\<close>

text \<open>
  C5 (as amended). When the call of an endpoint fails in \<^verbatim>\<open>send_request\<close> (no process, or
  a failure at the transport), the endpoint does not raise: it returns
  \<^verbatim>\<open>MCPResponse(success=False, error=str(e))\<close> for the exception \<open>e\<close> of the call, which
  FastAPI answers with the status 200.
\<close>

theorem call_failure_returned_with_status_200:
  "(send_request env self list_tools_request = (Inl e, self') \<longrightarrow>
      list_tools env self =
        (Inr \<lparr>success = False, result = JNull, error = Some e\<rparr>, self') \<and>
      http_status (fst (list_tools env self)) = 200) \<and>
   (send_request env self (call_tool_request tool_call) = (Inl e, self') \<longrightarrow>
      call_tool env self tool_call =
        (Inr \<lparr>success = False, result = JNull, error = Some e\<rparr>, self') \<and>
      http_status (fst (call_tool env self tool_call)) = 200) \<and>
   (send_request env self (send_mcp_request_request mcp_request) = (Inl e, self') \<longrightarrow>
      send_mcp_request env self mcp_request =
        (Inr \<lparr>success = False, result = JNull, error = Some e\<rparr>, self') \<and>
      http_status (fst (send_mcp_request env self mcp_request)) = 200)"
  by (simp add: list_tools_def call_tool_def send_mcp_request_def endpoint_def)

text \<open>On the connected example session, with a write that fails on a broken pipe.\<close>

theorem call_failure_returned_with_status_200_witness:
  "send_request \<lparr>write_error = Some (OSError ''Broken pipe''), read_result = EndOfStream\<rparr>
     example_ready list_tools_request = (Inl (OSError ''Broken pipe''), example_ready) \<and>
   list_tools \<lparr>write_error = Some (OSError ''Broken pipe''), read_result = EndOfStream\<rparr>
     example_ready =
     (Inr \<lparr>success = False, result = JNull, error = Some (OSError ''Broken pipe'')\<rparr>,
      example_ready) \<and>
   http_status (fst (list_tools
     \<lparr>write_error = Some (OSError ''Broken pipe''), read_result = EndOfStream\<rparr>
     example_ready)) = 200 \<and>
   send_request \<lparr>write_error = Some (OSError ''Broken pipe''), read_result = EndOfStream\<rparr>
     example_ready (call_tool_request example_tool_call) =
     (Inl (OSError ''Broken pipe''), example_ready) \<and>
   call_tool \<lparr>write_error = Some (OSError ''Broken pipe''), read_result = EndOfStream\<rparr>
     example_ready example_tool_call =
     (Inr \<lparr>success = False, result = JNull, error = Some (OSError ''Broken pipe'')\<rparr>,
      example_ready) \<and>
   http_status (fst (call_tool
     \<lparr>write_error = Some (OSError ''Broken pipe''), read_result = EndOfStream\<rparr>
     example_ready example_tool_call)) = 200 \<and>
   send_request \<lparr>write_error = Some (OSError ''Broken pipe''), read_result = EndOfStream\<rparr>
     example_ready (send_mcp_request_request example_mcp_request) =
     (Inl (OSError ''Broken pipe''), example_ready) \<and>
   send_mcp_request \<lparr>write_error = Some (OSError ''Broken pipe''), read_result = EndOfStream\<rparr>
     example_ready example_mcp_request =
     (Inr \<lparr>success = False, result = JNull, error = Some (OSError ''Broken pipe'')\<rparr>,
      example_ready) \<and>
   http_status (fst (send_mcp_request
     \<lparr>write_error = Some (OSError ''Broken pipe''), read_result = EndOfStream\<rparr>
     example_ready example_mcp_request)) = 200"
proof -
  let ?env = "\<lparr>write_error = Some (OSError ''Broken pipe''), read_result = EndOfStream\<rparr>"
  have s: "send_request ?env example_ready request =
      (Inl (OSError ''Broken pipe''), example_ready)" for request
    by (simp add: send_request_def example_ready_eq)
  show ?thesis
    using s call_failure_returned_with_status_200
      [of ?env example_ready "OSError ''Broken pipe''" example_ready
          example_tool_call example_mcp_request]
    by simp
qed

text \<open>
  C5 (as stated) fails: \<^verbatim>\<open>list_tools\<close> on a client that was never connected returns the
  not-connected error in a response with \<open>success = False\<close>, and the HTTP status is 200,
  not a failure status.
\<close>

theorem error_returned_with_status_200_counterexample:
  "list_tools \<lparr>write_error = None, read_result = EndOfStream\<rparr> MCPClient_init =
     (Inr \<lparr>success = False, result = JNull,
           error = Some (Exception ''MCP server not connected'')\<rparr>, MCPClient_init) \<and>
   http_status (fst (list_tools \<lparr>write_error = None, read_result = EndOfStream\<rparr>
     MCPClient_init)) = 200 \<and>
   \<not> 400 \<le> http_status (fst (list_tools \<lparr>write_error = None, read_result = EndOfStream\<rparr>
     MCPClient_init))"
  by (simp add: list_tools_def endpoint_def send_request_def MCPClient_init_def)

text \<open>
  An error response from the child: the \<open>HTTPException\<close> with the code 500 that the
  \<^verbatim>\<open>try\<close> body raises is caught by the \<^verbatim>\<open>except\<close> clause of the same endpoint, which
  returns it as the error of a response with \<open>success = False\<close>.
\<close>

lemma remote_error_caught_by_endpoint:
  "list_tools (reply error_reply) example_ready =
     (Inr \<lparr>success = False, result = JNull,
           error = Some (HTTPException 500
             (JDict [(''code'', JInt (- 32600)), (''message'', JStr ''Invalid Request'')]))\<rparr>,
      snd (send_request (reply error_reply) example_ready list_tools_request)) \<and>
   http_status (fst (list_tools (reply error_reply) example_ready)) = 200"
  by (simp add: example_ready_eq list_tools_def endpoint_def send_request_def reply_def
      error_reply_def on_response_def)

subsection \<open>The handshake request\<close>

text \<open>
  C8. When \<^verbatim>\<open>connect\<close> has a command line, spawns the child and the write succeeds, the
  new process has been written exactly one piece of data: the initialize request as one
  JSON object on one line, with no newline but the one that ends it. The request has
  the method \<open>initialize\<close>, the protocol version \<open>2024-11-05\<close>, the capabilities
  \<^verbatim>\<open>{roots: {listChanged: true}, sampling: {}}\<close> and a client info with a name and a version.
\<close>

theorem handshake_request_sent:
  \<open>full_command config = Inr cmd \<Longrightarrow> spawn_error env = None \<Longrightarrow>
   write_error (handshake env) = None \<Longrightarrow>
   process (snd (connect env config self)) =
     Some \<lparr>argv = cmd, stdin_written = [json_dumps init_request @ [CHR 0x0A]]\<rparr> \<and>
   json_dumps init_request =
     ''{"jsonrpc": "2.0", "id": 1, "method": "initialize", "params": {"protocolVersion": "2024-11-05", "capabilities": {"roots": {"listChanged": true}, "sampling": {}}, "clientInfo": {"name": "fastapi-mcp-bridge", "version": "1.0.0"}}}'' \<and>
   CHR 0x0A \<notin> set (json_dumps init_request) \<and>
   py_getitem init_request ''method'' = Inr (JStr ''initialize'') \<and>
   (\<exists>ps. py_getitem init_request ''params'' = Inr ps \<and>
      py_getitem ps ''protocolVersion'' = Inr (JStr ''2024-11-05'') \<and>
      py_getitem ps ''capabilities'' =
        Inr (JDict [(''roots'', JDict [(''listChanged'', JBool True)]),
                    (''sampling'', JDict [])]) \<and>
      py_getitem ps ''clientInfo'' =
        Inr (JDict [(''name'', JStr ''fastapi-mcp-bridge''), (''version'', JStr ''1.0.0'')]))\<close>
proof -
  assume c: "full_command config = Inr cmd" and s: "spawn_error env = None"
    and w: "write_error (handshake env) = None"
  have "process (snd (connect env config self)) =
     Some \<lparr>argv = cmd, stdin_written = [json_dumps init_request @ [CHR 0x0A]]\<rparr>"
    using c s w
    by (cases "read_result (handshake env)") (simp_all add: connect_def send_request_def)
  moreover have "py_getitem init_request ''method'' = Inr (JStr ''initialize'')"
    by (simp add: init_request_def)
  moreover have "\<exists>ps. py_getitem init_request ''params'' = Inr ps \<and>
      py_getitem ps ''protocolVersion'' = Inr (JStr ''2024-11-05'') \<and>
      py_getitem ps ''capabilities'' =
        Inr (JDict [(''roots'', JDict [(''listChanged'', JBool True)]),
                    (''sampling'', JDict [])]) \<and>
      py_getitem ps ''clientInfo'' =
        Inr (JDict [(''name'', JStr ''fastapi-mcp-bridge''), (''version'', JStr ''1.0.0'')])"
    by (simp add: init_request_def)
  ultimately show ?thesis
    using init_request_text json_dumps_no_newline [of init_request] by simp
qed

theorem handshake_request_sent_witness:
  \<open>full_command example_config = Inr [JStr ''echo-server''] \<and>
   spawn_error example_connect_env = None \<and>
   write_error (handshake example_connect_env) = None \<and>
   process (snd (connect example_connect_env example_config MCPClient_init)) =
     Some \<lparr>argv = [JStr ''echo-server''],
           stdin_written = [''{"jsonrpc": "2.0", "id": 1, "method": "initialize", "params": {"protocolVersion": "2024-11-05", "capabilities": {"roots": {"listChanged": true}, "sampling": {}}, "clientInfo": {"name": "fastapi-mcp-bridge", "version": "1.0.0"}}}'' @ [CHR 0x0A]]\<rparr>\<close>
proof -
  have c: "full_command example_config = Inr [JStr ''echo-server'']"
    by (simp add: full_command_def example_config_def)
  have s: "spawn_error example_connect_env = None"
    by (simp add: example_connect_env_def)
  have w: "write_error (handshake example_connect_env) = None"
    by (simp add: example_connect_env_def reply_def)
  show ?thesis
    using c s w handshake_request_sent [OF c s w, of MCPClient_init] by simp
qed

subsection \<open>A client without a process\<close>



subsection \<open>The health endpoint\<close>

text \<open>
  C10. The health endpoint reports the status \<open>healthy\<close> in every state of the session and
  for every configuration; only the field \<open>mcp_connected\<close> follows the \<open>connected\<close> flag.
\<close>

theorem health_check_always_healthy:
  "status (health_check mcp_client config) = ''healthy'' \<and>
   mcp_connected (health_check mcp_client config) = connected mcp_client"
  by (simp add: health_check_def)

end
